theory Spec2Isabelle
  imports Complex_Main
begin

section \<open>The camera navigation core of the viewer (src/Core/Navigation.js)\<close>

text \<open>
  A shallow embedding of the \<^verbatim>\<open>Navigation\<close> class. JavaScript numbers are
  idealised as real numbers: rounding errors of IEEE doubles are not modelled, and where a
  division by zero of the source would leave the finite numbers (\<^verbatim>\<open>Infinity\<close>,
  \<^verbatim>\<open>NaN\<close>) the model returns the outcome \<open>NonFinite\<close> instead of a number.
  A property access on the \<^verbatim>\<open>null\<close> camera is the outcome \<open>TypeError\<close>.
\<close>

subsection \<open>JavaScript values and outcomes\<close>

datatype jsval = JUndefined | JNull | JBool bool | JNum real | JStr string

datatype jserror = TypeError | NonFinite

text \<open>Reading property \<open>k\<close> of a plain object: a missing property reads as \<^verbatim>\<open>undefined\<close>.\<close>

definition getprop :: "(string \<Rightarrow> jsval option) \<Rightarrow> string \<Rightarrow> jsval" where
  "getprop obj k = (case obj k of None \<Rightarrow> JUndefined | Some v \<Rightarrow> v)"

subsection \<open>THREE.Vector3 and THREE.Box3\<close>

text \<open>
  Modelled from the spec: the linear-algebra library (three.js: \<^verbatim>\<open>THREE.Vector3\<close>,
  \<^verbatim>\<open>THREE.Box3\<close>, \<^verbatim>\<open>THREE.Math.degToRad\<close> and \<^verbatim>\<open>radToDeg\<close>) is not under src/; the
  specification takes its vector primitives from such a library. They are written out
  here with their usual meaning. \<^verbatim>\<open>normalize\<close> divides by the length and gives the zero
  vector when the length is zero, which is what the tests \<^verbatim>\<open>lengthSq() === 0\<close> that
  follow it in the source expect. A box is empty when a maximum lies below its minimum.
\<close>

record vec3 =
  vx :: real
  vy :: real
  vz :: real

definition Vector3 :: "real \<Rightarrow> real \<Rightarrow> real \<Rightarrow> vec3" where
  "Vector3 a b c = \<lparr>vx = a, vy = b, vz = c\<rparr>"

definition add :: "vec3 \<Rightarrow> vec3 \<Rightarrow> vec3" where
  "add a b = Vector3 (vx a + vx b) (vy a + vy b) (vz a + vz b)"

definition sub :: "vec3 \<Rightarrow> vec3 \<Rightarrow> vec3" where
  "sub a b = Vector3 (vx a - vx b) (vy a - vy b) (vz a - vz b)"

definition multiplyScalar :: "vec3 \<Rightarrow> real \<Rightarrow> vec3" where
  "multiplyScalar a s = Vector3 (vx a * s) (vy a * s) (vz a * s)"

definition dot :: "vec3 \<Rightarrow> vec3 \<Rightarrow> real" where
  "dot a b = vx a * vx b + vy a * vy b + vz a * vz b"

definition crossVectors :: "vec3 \<Rightarrow> vec3 \<Rightarrow> vec3" where
  "crossVectors a b =
     Vector3 (vy a * vz b - vz a * vy b) (vz a * vx b - vx a * vz b) (vx a * vy b - vy a * vx b)"

definition lengthSq :: "vec3 \<Rightarrow> real" where
  "lengthSq a = vx a * vx a + vy a * vy a + vz a * vz a"

definition length3 :: "vec3 \<Rightarrow> real" where
  "length3 a = sqrt (vx a * vx a + vy a * vy a + vz a * vz a)"

definition divideScalar :: "vec3 \<Rightarrow> real \<Rightarrow> vec3" where
  "divideScalar a s =
     (if s \<noteq> 0 then Vector3 (vx a * (1 / s)) (vy a * (1 / s)) (vz a * (1 / s))
      else Vector3 0 0 0)"

definition normalize3 :: "vec3 \<Rightarrow> vec3" where
  "normalize3 a = divideScalar a (length3 a)"

record box3 =
  bmin :: vec3
  bmax :: vec3

definition empty3 :: "box3 \<Rightarrow> bool" where
  "empty3 b \<longleftrightarrow> vx (bmax b) < vx (bmin b) \<or> vy (bmax b) < vy (bmin b) \<or> vz (bmax b) < vz (bmin b)"

definition center :: "box3 \<Rightarrow> vec3" where
  "center b = multiplyScalar (add (bmin b) (bmax b)) 0.5"

definition size3 :: "box3 \<Rightarrow> vec3" where
  "size3 b = sub (bmax b) (bmin b)"

definition degToRad :: "real \<Rightarrow> real" where
  "degToRad d = d * (pi / 180)"

definition radToDeg :: "real \<Rightarrow> real" where
  "radToDeg r = r * (180 / pi)"

subsection \<open>Division by a tangent\<close>

text \<open>
  \<^verbatim>\<open>Math.tan\<close> over the reals. The tangent of an angle is zero exactly where its sine is
  zero, and a division by it leaves the finite numbers there; the functions that divide by
  a tangent give the outcome \<open>NonFinite\<close> at such an angle. Where the cosine is zero the
  tangent is infinite and the quotient by it is zero (in doubles the tangent of the
  nearest angle is of the order of 1e16 and the quotient is zero up to rounding).
\<close>

definition tangent_zero :: "real \<Rightarrow> bool" where
  "tangent_zero h \<longleftrightarrow> sin h = 0"

definition over_tan :: "real \<Rightarrow> real \<Rightarrow> real" where
  "over_tan x h = (if cos h = 0 then 0 else x / tan h)"

subsection \<open>The state of a Navigation object\<close>

text \<open>
  The option object as the constructor builds it: eight boolean properties. The two
  properties \<^verbatim>\<open>reverseHorizontalLookDirection\<close> and \<^verbatim>\<open>reverseVerticalLookDirection\<close>
  are not created by the constructor; they exist only once their setter has run, so they
  are optional here (\<open>None\<close>: the object has no such property).
\<close>

record options =
  dollyToPivot :: bool
  orbitPastPoles :: bool
  reverseDolly :: bool
  reverseHorizontalLook :: bool
  reverseVerticalLook :: bool
  useLeftHandedInput :: bool
  usePivotAlways :: bool
  lockNavigation :: bool
  reverseHorizontalLookDirection :: "bool option"
  reverseVerticalLookDirection :: "bool option"

record camera =
  position :: vec3
  target :: vec3
  pivot :: vec3
  up :: vec3
  worldup :: vec3
  fov :: real
  isPerspective :: bool
  dirty :: bool

text \<open>The camera object handed to the constructor: \<^verbatim>\<open>target\<close> and \<^verbatim>\<open>pivot\<close> may be missing.\<close>

record camera_arg =
  arg_position :: vec3
  arg_target :: "vec3 option"
  arg_pivot :: "vec3 option"
  arg_up :: vec3
  arg_fov :: real
  arg_isPerspective :: bool

record screen_viewport =
  left :: real
  top :: real
  width :: real
  height :: real

record destination_view =
  dest_position :: vec3
  dest_coi :: vec3
  dest_fov :: real
  dest_up :: vec3
  dest_worldUp :: vec3
  dest_reorient :: bool

record navigation =
  options :: options
  lockSettings :: "string \<Rightarrow> jsval option"
  pivotIsSetFlag :: bool
  fitToViewRequested :: bool
  homeViewRequested :: bool
  transitionActive :: bool
  destinationView :: "destination_view option"
  is2D :: bool
  isTouchDevice :: bool
  the_camera :: "camera option"
  viewport :: screen_viewport

text \<open>
  The constants of the constructor. \<^verbatim>\<open>__kEpsilon\<close> is assigned once, from
  \<^verbatim>\<open>kEpsilon\<close>, and never written again, so it is a constant here.
\<close>

definition kEpsilon :: real where
  "kEpsilon = 0.000001"

definition kMinFOV :: real where
  "kMinFOV = 6.88"

definition kMaxFOV :: real where
  "kMaxFOV = 100"

definition actions :: "string list" where
  "actions = [''orbit'', ''pan'', ''zoom'', ''roll'', ''fov'', ''gotoview'', ''walk'']"

definition default_options :: options where
  "default_options =
     \<lparr>dollyToPivot = False, orbitPastPoles = True, reverseDolly = False,
      reverseHorizontalLook = False, reverseVerticalLook = False,
      useLeftHandedInput = False, usePivotAlways = False, lockNavigation = False,
      reverseHorizontalLookDirection = None, reverseVerticalLookDirection = None\<rparr>"

definition default_lockSettings :: "string \<Rightarrow> jsval option" where
  "default_lockSettings = map_of (map (\<lambda>a. (a, JBool False)) actions)"

text \<open>\<^verbatim>\<open>setCamera\<close> as the constructor runs it, on the initial \<^verbatim>\<open>_camera = null\<close>.\<close>

definition setCamera :: "camera_arg option \<Rightarrow> camera option" where
  "setCamera arg =
     (case arg of
        None \<Rightarrow> None
      | Some c \<Rightarrow>
          Some \<lparr>position = arg_position c,
                target = (case arg_target c of None \<Rightarrow> Vector3 0 0 0 | Some t \<Rightarrow> t),
                pivot = (case arg_pivot c of None \<Rightarrow> Vector3 0 0 0 | Some p \<Rightarrow> p),
                up = arg_up c, worldup = arg_up c, fov = arg_fov c,
                isPerspective = arg_isPerspective c, dirty = True\<rparr>)"

definition Navigation :: "camera_arg option \<Rightarrow> navigation" where
  "Navigation arg =
     \<lparr>options = default_options, lockSettings = default_lockSettings,
      pivotIsSetFlag = False, fitToViewRequested = False, homeViewRequested = False,
      transitionActive = False, destinationView = None, is2D = False,
      isTouchDevice = False, the_camera = setCamera arg,
      viewport = \<lparr>left = 0, top = 0, width = 1, height = 1\<rparr>\<rparr>"

definition setScreenViewport :: "navigation \<Rightarrow> screen_viewport \<Rightarrow> navigation" where
  "setScreenViewport nav vp = nav\<lparr>viewport := vp\<rparr>"

definition getScreenViewport :: "navigation \<Rightarrow> screen_viewport" where
  "getScreenViewport nav = viewport nav"

definition getCamera :: "navigation \<Rightarrow> camera option" where
  "getCamera nav = the_camera nav"

definition setIs2D :: "navigation \<Rightarrow> bool \<Rightarrow> navigation" where
  "setIs2D nav state = nav\<lparr>is2D := state\<rparr>"

definition getIs2D :: "navigation \<Rightarrow> bool" where
  "getIs2D nav = is2D nav"

subsection \<open>The lock system\<close>

definition setIsLocked :: "navigation \<Rightarrow> bool \<Rightarrow> navigation" where
  "setIsLocked nav state = nav\<lparr>options := (options nav)\<lparr>lockNavigation := state\<rparr>\<rparr>"

definition getIsLocked :: "navigation \<Rightarrow> bool" where
  "getIsLocked nav = lockNavigation (options nav)"

text \<open>
  \<^verbatim>\<open>setLockSettings\<close> walks the keys of the stored lock settings and copies the value of
  each key that the argument owns; any other key of the argument is ignored.
\<close>

definition setLockSettings :: "navigation \<Rightarrow> (string \<Rightarrow> jsval option) \<Rightarrow> navigation" where
  "setLockSettings nav settings =
     nav\<lparr>lockSettings := (\<lambda>action.
        case lockSettings nav action of
          None \<Rightarrow> None
        | Some old \<Rightarrow> (case settings action of None \<Rightarrow> Some old | Some v \<Rightarrow> Some v))\<rparr>"

definition isActionEnabled :: "navigation \<Rightarrow> string \<Rightarrow> bool" where
  "isActionEnabled nav action \<longleftrightarrow>
     \<not> lockNavigation (options nav) \<or> getprop (lockSettings nav) action = JBool True"

subsection \<open>The reverse-look options\<close>

text \<open>
  The getters return the value read and the warnings handed to the logger. Outside 2D they
  read the property \<^verbatim>\<open>reverseHorizontalLookDirection\<close> (\<^verbatim>\<open>reverseVerticalLookDirection\<close>)
  of the option object.
\<close>

definition setReverseHorizontalLookDirection :: "navigation \<Rightarrow> bool \<Rightarrow> navigation \<times> string list" where
  "setReverseHorizontalLookDirection nav state =
     (if getIs2D nav
      then (nav, [''Autodesk.Viewing.Navigation.setReverseHorizontalLookDirection is not applicable to 2D''])
      else (nav\<lparr>options := (options nav)\<lparr>reverseHorizontalLookDirection := Some state\<rparr>\<rparr>, []))"

definition setReverseVerticalLookDirection :: "navigation \<Rightarrow> bool \<Rightarrow> navigation \<times> string list" where
  "setReverseVerticalLookDirection nav state =
     (if getIs2D nav
      then (nav, [''Autodesk.Viewing.Navigation.setReverseVerticalLookDirection is not applicable to 2D''])
      else (nav\<lparr>options := (options nav)\<lparr>reverseVerticalLookDirection := Some state\<rparr>\<rparr>, []))"

definition getReverseHorizontalLookDirection :: "navigation \<Rightarrow> jsval \<times> string list" where
  "getReverseHorizontalLookDirection nav =
     (if getIs2D nav
      then (JBool False, [''Autodesk.Viewing.Navigation.getReverseHorizontalLookDirection is not applicable to 2D''])
      else (case reverseHorizontalLookDirection (options nav) of
              None \<Rightarrow> JUndefined | Some b \<Rightarrow> JBool b, []))"

definition getReverseVerticalLookDirection :: "navigation \<Rightarrow> jsval \<times> string list" where
  "getReverseVerticalLookDirection nav =
     (if getIs2D nav
      then (JBool False, [''Autodesk.Viewing.Navigation.getReverseVerticalLookDirection is not applicable to 2D''])
      else (case reverseVerticalLookDirection (options nav) of
              None \<Rightarrow> JUndefined | Some b \<Rightarrow> JBool b, []))"

subsection \<open>View requests\<close>

definition getUp :: "navigation \<Rightarrow> vec3" where
  "getUp nav = (case the_camera nav of Some c \<Rightarrow> worldup c | None \<Rightarrow> Vector3 0 1 0)"

definition getWorldUpVector :: "navigation \<Rightarrow> vec3" where
  "getWorldUpVector nav = getUp nav"

definition setRequestFitToView :: "navigation \<Rightarrow> bool \<Rightarrow> navigation" where
  "setRequestFitToView nav state =
     (if isActionEnabled nav ''gotoview'' then nav\<lparr>fitToViewRequested := state\<rparr> else nav)"

definition setRequestHomeView :: "navigation \<Rightarrow> bool \<Rightarrow> navigation" where
  "setRequestHomeView nav state =
     (if isActionEnabled nav ''gotoview'' then nav\<lparr>homeViewRequested := state\<rparr> else nav)"

definition setRequestTransition ::
  "navigation \<Rightarrow> bool \<Rightarrow> vec3 \<Rightarrow> vec3 \<Rightarrow> real \<Rightarrow> bool \<Rightarrow> jserror + navigation" where
  "setRequestTransition nav state pos coi fov' reorient =
     (if state then
        (case getCamera nav of
           None \<Rightarrow> Inl TypeError
         | Some c \<Rightarrow>
             Inr (nav\<lparr>destinationView :=
               Some \<lparr>dest_position = pos, dest_coi = coi, dest_fov = fov', dest_up = up c,
                     dest_worldUp = getWorldUpVector nav, dest_reorient = reorient\<rparr>\<rparr>))
      else Inr (nav\<lparr>destinationView := None\<rparr>))"

definition setRequestTransitionWithUp ::
  "navigation \<Rightarrow> bool \<Rightarrow> vec3 \<Rightarrow> vec3 \<Rightarrow> real \<Rightarrow> vec3 \<Rightarrow> vec3 option \<Rightarrow> jserror + navigation" where
  "setRequestTransitionWithUp nav state pos coi fov' up' worldUp =
     (if state then
        Inr (nav\<lparr>destinationView :=
          Some \<lparr>dest_position = pos, dest_coi = coi, dest_fov = fov', dest_up = up',
                dest_worldUp = (case worldUp of Some w \<Rightarrow> w | None \<Rightarrow> getWorldUpVector nav),
                dest_reorient = False\<rparr>\<rparr>)
      else Inr (nav\<lparr>destinationView := None\<rparr>))"

definition getRequestTransition :: "navigation \<Rightarrow> destination_view option" where
  "getRequestTransition nav = destinationView nav"


subsection \<open>Camera accessors\<close>

definition getPosition :: "navigation \<Rightarrow> vec3" where
  "getPosition nav = (case the_camera nav of Some c \<Rightarrow> position c | None \<Rightarrow> Vector3 0 0 1)"

definition getTarget :: "navigation \<Rightarrow> vec3" where
  "getTarget nav = (case the_camera nav of Some c \<Rightarrow> target c | None \<Rightarrow> Vector3 0 0 0)"

definition getEyeVector :: "navigation \<Rightarrow> vec3" where
  "getEyeVector nav =
     (case the_camera nav of Some c \<Rightarrow> sub (target c) (position c) | None \<Rightarrow> Vector3 0 0 (- 1))"

definition setView :: "navigation \<Rightarrow> vec3 \<Rightarrow> vec3 \<Rightarrow> navigation" where
  "setView nav pos tgt =
     (case the_camera nav of
        Some c \<Rightarrow> nav\<lparr>the_camera := Some (c\<lparr>position := pos, target := tgt, dirty := True\<rparr>)\<rparr>
      | None \<Rightarrow> nav)"

subsection \<open>Fit to view\<close>

record fit =
  fit_position :: vec3
  fit_target :: vec3

text \<open>
  \<^verbatim>\<open>computeFit\<close>. The only division is by \<^verbatim>\<open>Math.tan(degToRad(fov * 0.5))\<close>; the radius
  is positive, so a zero tangent gives an infinite distance, and an infinite tangent the
  distance zero.
\<close>

definition computeFit :: "navigation \<Rightarrow> vec3 \<Rightarrow> vec3 \<Rightarrow> real \<Rightarrow> box3 option \<Rightarrow> jserror + fit" where
  "computeFit nav oldpos oldcoi fov' bounds =
     (case bounds of
        None \<Rightarrow> Inr \<lparr>fit_position = oldpos, fit_target = oldcoi\<rparr>
      | Some b \<Rightarrow>
          if empty3 b then Inr \<lparr>fit_position = oldpos, fit_target = oldcoi\<rparr>
          else
            let coi = center b;
                size = size3 b;
                radius0 = 0.5 * sqrt (vx size * vx size + vy size * vy size + vz size * vz size);
                radius1 = (if radius0 = 0 then 1 else radius0);
                radius = (if \<not> getIs2D nav
                          then radius1 * max 1 (0.9 + fov' / kMaxFOV * 0.5) else radius1);
                eye = normalize3 (sub oldpos oldcoi);
                h = degToRad (fov' * 0.5)
            in if tangent_zero h then Inl NonFinite
               else Inr \<lparr>fit_position = add coi (multiplyScalar eye (over_tan radius h)),
                         fit_target = coi\<rparr>)"

subsection \<open>Orientation\<close>

text \<open>
  \<^verbatim>\<open>orient\<close> writes the three axes into the rotation part of its scratch matrix and hands
  the matrix to the object; the model returns the three axes.
\<close>

record basis =
  xaxis :: vec3
  yaxis :: vec3
  zaxis :: vec3

definition orient :: "vec3 \<Rightarrow> vec3 \<Rightarrow> vec3 \<Rightarrow> basis" where
  "orient tgt from up' =
     (let z0 = normalize3 (sub from tgt);
          z1 = (if lengthSq z0 = 0 then z0\<lparr>vz := 1\<rparr> else z0);
          x1 = normalize3 (crossVectors up' z1);
          z2 = (if lengthSq x1 = 0
                then (if vz up' > vy up' then z1\<lparr>vy := vy z1 - 0.0001\<rparr>
                      else z1\<lparr>vz := vz z1 + 0.0001\<rparr>)
                else z1);
          x2 = (if lengthSq x1 = 0 then normalize3 (crossVectors up' z2) else x1);
          y2 = crossVectors z2 x2
      in \<lparr>xaxis = x2, yaxis = y2, zaxis = z2\<rparr>)"

text \<open>The assignment of the singular branch of \<^verbatim>\<open>orient\<close>, on its own.\<close>

definition orient_perturb :: "vec3 \<Rightarrow> vec3 \<Rightarrow> vec3" where
  "orient_perturb up' z =
     (if vz up' > vy up' then z\<lparr>vy := vy z - 0.0001\<rparr> else z\<lparr>vz := vz z + 0.0001\<rparr>)"

definition det3 :: "basis \<Rightarrow> real" where
  "det3 b = dot (xaxis b) (crossVectors (yaxis b) (zaxis b))"

definition getCameraRightVector :: "navigation \<Rightarrow> bool \<Rightarrow> jserror + vec3" where
  "getCameraRightVector nav worldAligned =
     (case (if worldAligned then Some (getWorldUpVector nav)
            else map_option up (getCamera nav)) of
        None \<Rightarrow> Inl TypeError
      | Some up' \<Rightarrow>
          let eye = getEyeVector nav;
              right = crossVectors eye up'
          in if lengthSq right = 0
             then
               let eye' = (if vz up' > vy up' then eye\<lparr>vy := vy eye - 0.0001\<rparr>
                           else eye\<lparr>vz := vz eye + 0.0001\<rparr>)
               in Inr (normalize3 (crossVectors eye' up'))
             else Inr (normalize3 right))"

definition getCameraUpVector :: "navigation \<Rightarrow> jserror + vec3" where
  "getCameraUpVector nav =
     (case getCameraRightVector nav False of
        Inl e \<Rightarrow> Inl e
      | Inr right \<Rightarrow> Inr (normalize3 (crossVectors right (getEyeVector nav))))"

definition getWorldRightVector :: "navigation \<Rightarrow> vec3" where
  "getWorldRightVector nav =
     (let right = getUp nav
      in normalize3
           (if \<bar>vz right\<bar> \<le> \<bar>vy right\<bar> then Vector3 (vy right) (- vx right) 0
            else if vz right \<ge> 0 then Vector3 (vz right) 0 (- vx right)
            else Vector3 (- vz right) 0 (vx right)))"

subsection \<open>Field of view and focal length\<close>

text \<open>\<^verbatim>\<open>Math.round\<close> rounds halves up, as \<open>round\<close> does.\<close>

definition fov2fl :: "real \<Rightarrow> jserror + int" where
  "fov2fl fov' =
     (let rads0 = degToRad fov';
          rads = (if rads0 \<le> 0 then 0.0001 else rads0);
          h = rads * 0.5
      in if tangent_zero h then Inl NonFinite else Inr (round (over_tan 12 h)))"

definition fl2fov :: "real \<Rightarrow> real" where
  "fl2fov fl =
     (let fl' = (if fl \<le> 0 then 0.0001 else fl)
      in radToDeg (2 * arctan (12 / fl')))"

subsection \<open>Pan and dolly\<close>

text \<open>
  \<^verbatim>\<open>getWorldSize\<close> returns a \<^verbatim>\<open>THREE.Vector2\<close>, here the pair (width, height). The aspect
  ratio divides by the viewport height.
\<close>

definition getWorldSize :: "navigation \<Rightarrow> real \<Rightarrow> jserror + real \<times> real" where
  "getWorldSize nav atDistance =
     (case getCamera nav of
        None \<Rightarrow> Inl TypeError
      | Some c \<Rightarrow>
          if height (getScreenViewport nav) = 0 then Inl NonFinite
          else
            let aspect = width (getScreenViewport nav) / height (getScreenViewport nav);
                worldHeight = 2 * atDistance * tan (degToRad (fov c * 0.5));
                worldWidth = worldHeight * aspect
            in Inr (worldWidth, worldHeight))"

definition panRelative :: "navigation \<Rightarrow> real \<Rightarrow> real \<Rightarrow> real \<Rightarrow> jserror + navigation" where
  "panRelative nav deltaX deltaY atDistance =
     (if \<not> isActionEnabled nav ''pan'' then Inr nav
      else
        case getWorldSize nav atDistance of
          Inl e \<Rightarrow> Inl e
        | Inr trackSpeed \<Rightarrow>
            let offsetX = deltaX * fst trackSpeed;
                offsetY = deltaY * snd trackSpeed
            in case getCameraRightVector nav False of
                 Inl e \<Rightarrow> Inl e
               | Inr right \<Rightarrow>
                   (case getCameraUpVector nav of
                      Inl e \<Rightarrow> Inl e
                    | Inr up' \<Rightarrow>
                        let trackX = multiplyScalar right offsetX;
                            trackY = multiplyScalar up' offsetY;
                            offsetVector = add trackX trackY
                        in Inr (setView nav (add (getPosition nav) offsetVector)
                                            (add (getTarget nav) offsetVector))))"

text \<open>
  \<^verbatim>\<open>dollyFromPoint\<close>. The scale factor divides by the distance between the point and the
  camera position. When that distance is zero the factor is infinite (the new length is at
  least \<open>10 * kEpsilon\<close>, hence positive), the test on the factor succeeds and the
  position written to the camera is not a number.
\<close>

definition dollyFromPoint :: "navigation \<Rightarrow> real \<Rightarrow> vec3 \<Rightarrow> jserror + navigation" where
  "dollyFromPoint nav distance point =
     (if \<not> isActionEnabled nav ''zoom'' \<or> \<bar>distance\<bar> \<le> kEpsilon then Inr nav
      else
        let pos = getPosition nav;
            dollyVec = sub point pos;
            oldLength = length3 dollyVec;
            newLength0 = oldLength + distance;
            kMinDistance = kEpsilon * 10;
            newLength = (if newLength0 < kMinDistance then kMinDistance else newLength0)
        in if oldLength = 0
           then (case getCamera nav of None \<Rightarrow> Inl TypeError | Some c \<Rightarrow> Inl NonFinite)
           else
             let scaleFactor = newLength / oldLength
             in if \<bar>scaleFactor - 1\<bar> > kEpsilon
                then
                  let dollyVec1 = multiplyScalar dollyVec scaleFactor;
                      dollyVec2 = Vector3 (- vx dollyVec1) (- vy dollyVec1) (- vz dollyVec1);
                      newPosition = add dollyVec2 point;
                      viewVec = getEyeVector nav
                  in case getCamera nav of
                       None \<Rightarrow> Inl TypeError
                     | Some c \<Rightarrow>
                         let viewVec' = (if \<not> isPerspective c
                                         then multiplyScalar viewVec scaleFactor else viewVec)
                         in Inr (setView nav newPosition (add viewVec' newPosition))
                else Inr nav)"

subsection \<open>Reference definitions, in the words of the specification\<close>

text \<open>
  The fit as the specification words it: the radius is inflated by the fudge factor for
  non-2D perspective views only.
\<close>

definition fit_radius :: "box3 \<Rightarrow> real" where
  "fit_radius b =
     (let d = length3 (size3 b) in if d = 0 then 1 else d / 2)"

definition computeFit_spec ::
  "bool \<Rightarrow> bool \<Rightarrow> vec3 \<Rightarrow> vec3 \<Rightarrow> real \<Rightarrow> box3 option \<Rightarrow> fit" where
  "computeFit_spec twoD perspective oldpos oldcoi fov' bounds =
     (case bounds of
        None \<Rightarrow> \<lparr>fit_position = oldpos, fit_target = oldcoi\<rparr>
      | Some b \<Rightarrow>
          if empty3 b then \<lparr>fit_position = oldpos, fit_target = oldcoi\<rparr>
          else
            let fudge = (if \<not> twoD \<and> perspective then max 1 (0.9 + fov' / 100 * 0.5) else 1);
                distance = over_tan (fit_radius b * fudge) (degToRad fov' / 2)
            in \<lparr>fit_position = add (center b) (multiplyScalar (normalize3 (sub oldpos oldcoi)) distance),
                fit_target = center b\<rparr>)"



text \<open>
  The perturbation of the view axis as the specification words it: the epsilon is
  subtracted from Y or from Z.
\<close>

definition perturb_spec :: "vec3 \<Rightarrow> vec3 \<Rightarrow> vec3" where
  "perturb_spec up' z =
     (if vz up' > vy up' then z\<lparr>vy := vy z - 0.0001\<rparr> else z\<lparr>vz := vz z - 0.0001\<rparr>)"

subsection \<open>Concrete inputs\<close>

definition camera0 :: camera_arg where
  "camera0 = \<lparr>arg_position = Vector3 0 0 10, arg_target = Some (Vector3 0 0 0),
              arg_pivot = None, arg_up = Vector3 0 1 0, arg_fov = 45, arg_isPerspective = True\<rparr>"


definition viewport_flat :: screen_viewport where
  "viewport_flat = \<lparr>left = 0, top = 0, width = 800, height = 0\<rparr>"

definition box_x :: box3 where
  "box_x = \<lparr>bmin = Vector3 (- 1) 0 0, bmax = Vector3 1 0 0\<rparr>"

section \<open>Properties\<close>

subsection \<open>The lock gate\<close>

lemma getprop_default_lockSettings:
  "a \<in> set actions \<Longrightarrow> getprop default_lockSettings a = JBool False"
  by (auto simp: actions_def default_lockSettings_def getprop_def)

text \<open>
  C1. For each of the seven action names, \<open>isActionEnabled\<close> is true exactly when
  \<open>lockNavigation\<close> is false or the lock setting of the action is the boolean true.
  Hence an unlocked navigation enables every action, a locked one with the default lock
  settings disables every action, and a locked one whose only change to the defaults is
  \<open>pan = true\<close> enables pan and nothing else.
\<close>

theorem isActionEnabled_spec:
  "(\<forall>a \<in> set actions.
      isActionEnabled nav a \<longleftrightarrow>
        (lockNavigation (options nav) = False \<or> getprop (lockSettings nav) a = JBool True))
   \<and> (lockNavigation (options nav) = False \<longrightarrow> (\<forall>a \<in> set actions. isActionEnabled nav a))
   \<and> (lockNavigation (options nav) = True \<and> lockSettings nav = default_lockSettings \<longrightarrow>
        (\<forall>a \<in> set actions. \<not> isActionEnabled nav a))
   \<and> (lockNavigation (options nav) = True \<and> lockSettings nav = default_lockSettings \<longrightarrow>
        (\<forall>a \<in> set actions.
           isActionEnabled (setLockSettings nav [''pan'' \<mapsto> JBool True]) a \<longleftrightarrow> a = ''pan''))"
proof (intro conjI impI ballI)
  fix a assume "a \<in> set actions"
  show "isActionEnabled nav a \<longleftrightarrow>
        (lockNavigation (options nav) = False \<or> getprop (lockSettings nav) a = JBool True)"
    by (simp add: isActionEnabled_def)
next
  fix a assume "lockNavigation (options nav) = False"
  then show "isActionEnabled nav a"
    by (simp add: isActionEnabled_def)
next
  fix a
  assume "lockNavigation (options nav) = True \<and> lockSettings nav = default_lockSettings"
    and "a \<in> set actions"
  then show "\<not> isActionEnabled nav a"
    by (simp add: isActionEnabled_def getprop_default_lockSettings)
next
  fix a
  assume h: "lockNavigation (options nav) = True \<and> lockSettings nav = default_lockSettings"
    and a: "a \<in> set actions"
  have "getprop (lockSettings (setLockSettings nav [''pan'' \<mapsto> JBool True])) a =
        (if a = ''pan'' then JBool True else JBool False)"
    using a h by (auto simp: setLockSettings_def getprop_def default_lockSettings_def actions_def)
  then show "isActionEnabled (setLockSettings nav [''pan'' \<mapsto> JBool True]) a \<longleftrightarrow> a = ''pan''"
    using h by (simp add: isActionEnabled_def setLockSettings_def)
qed

theorem isActionEnabled_spec_witness:
  "isActionEnabled (Navigation None) ''zoom''
   \<and> \<not> isActionEnabled (setIsLocked (Navigation None) True) ''zoom''
   \<and> isActionEnabled (setLockSettings (setIsLocked (Navigation None) True) [''pan'' \<mapsto> JBool True]) ''pan''
   \<and> \<not> isActionEnabled (setLockSettings (setIsLocked (Navigation None) True) [''pan'' \<mapsto> JBool True]) ''orbit''"
proof -
  have z: "''zoom'' \<in> set actions" and p: "''pan'' \<in> set actions" and o: "''orbit'' \<in> set actions"
    by (simp_all add: actions_def)
  have u: "lockNavigation (options (Navigation None)) = False"
    by (simp add: Navigation_def default_options_def)
  have l: "lockNavigation (options (setIsLocked (Navigation None) True)) = True
           \<and> lockSettings (setIsLocked (Navigation None) True) = default_lockSettings"
    by (simp add: Navigation_def setIsLocked_def)
  note unlocked = isActionEnabled_spec [of "Navigation None"]
  note locked = isActionEnabled_spec [of "setIsLocked (Navigation None) True"]
  have 1: "isActionEnabled (Navigation None) ''zoom''"
    using unlocked u z by blast
  have 2: "\<not> isActionEnabled (setIsLocked (Navigation None) True) ''zoom''"
    using locked l z by blast
  have 3: "\<forall>a \<in> set actions.
        isActionEnabled (setLockSettings (setIsLocked (Navigation None) True) [''pan'' \<mapsto> JBool True]) a
          \<longleftrightarrow> a = ''pan''"
    using locked l by blast
  show ?thesis
    using 1 2 3 p o by simp
qed

subsection \<open>Transition requests and the lock\<close>

lemma setRequestFitToView_gated:
  "lockNavigation (options nav) \<Longrightarrow> getprop (lockSettings nav) ''gotoview'' \<noteq> JBool True \<Longrightarrow>
     setRequestFitToView nav state = nav \<and> setRequestHomeView nav state = nav"
  by (simp add: setRequestFitToView_def setRequestHomeView_def isActionEnabled_def)

text \<open>
  C2. The claim asks that \<open>setRequestTransition\<close> and \<open>setRequestTransitionWithUp\<close>
  leave the stored request alone while the action gotoview is disabled. The source never
  consults the gate in either function (its siblings \<open>setRequestFitToView\<close> and
  \<open>setRequestHomeView\<close> do): with gotoview disabled and a camera installed, both store
  the new request, and a false state clears the stored one.
\<close>

theorem setRequestTransition_ignores_lock:
  assumes "\<not> isActionEnabled nav ''gotoview''" and "the_camera nav = Some c"
  shows "(\<exists>nav'. setRequestTransition nav True pos coi f r = Inr nav'
            \<and> getRequestTransition nav' =
                Some \<lparr>dest_position = pos, dest_coi = coi, dest_fov = f, dest_up = up c,
                      dest_worldUp = worldup c, dest_reorient = r\<rparr>)
       \<and> (\<exists>nav'. setRequestTransitionWithUp nav True pos coi f u None = Inr nav'
            \<and> getRequestTransition nav' =
                Some \<lparr>dest_position = pos, dest_coi = coi, dest_fov = f, dest_up = u,
                      dest_worldUp = worldup c, dest_reorient = False\<rparr>)
       \<and> (\<exists>nav'. setRequestTransition nav False pos coi f r = Inr nav'
            \<and> getRequestTransition nav' = None)
       \<and> (\<exists>nav'. setRequestTransitionWithUp nav False pos coi f u None = Inr nav'
            \<and> getRequestTransition nav' = None)"
  using assms
  by (simp add: setRequestTransition_def setRequestTransitionWithUp_def getRequestTransition_def
      getCamera_def getWorldUpVector_def getUp_def)

theorem setRequestTransition_ignores_lock_witness:
  "\<not> isActionEnabled (setIsLocked (Navigation (Some camera0)) True) ''gotoview''
   \<and> getRequestTransition (setIsLocked (Navigation (Some camera0)) True) = None
   \<and> (\<exists>nav'. setRequestTransition (setIsLocked (Navigation (Some camera0)) True) True
               (Vector3 1 2 3) (Vector3 0 0 0) 45 False = Inr nav'
        \<and> getRequestTransition nav' =
            Some \<lparr>dest_position = Vector3 1 2 3, dest_coi = Vector3 0 0 0, dest_fov = 45,
                  dest_up = Vector3 0 1 0, dest_worldUp = Vector3 0 1 0, dest_reorient = False\<rparr>)"
proof -
  let ?nav = "setIsLocked (Navigation (Some camera0)) True"
  have d: "\<not> isActionEnabled ?nav ''gotoview''"
    by (simp add: isActionEnabled_def setIsLocked_def Navigation_def getprop_def
        default_lockSettings_def actions_def)
  have c: "the_camera ?nav =
      Some \<lparr>position = Vector3 0 0 10, target = Vector3 0 0 0, pivot = Vector3 0 0 0,
            up = Vector3 0 1 0, worldup = Vector3 0 1 0, fov = 45, isPerspective = True,
            dirty = True\<rparr>"
    by (simp add: setIsLocked_def Navigation_def setCamera_def camera0_def)
  have n: "getRequestTransition ?nav = None"
    by (simp add: getRequestTransition_def setIsLocked_def Navigation_def)
  show ?thesis
    using setRequestTransition_ignores_lock [OF d c, of "Vector3 1 2 3" "Vector3 0 0 0" 45 False]
      d n by simp
qed

subsection \<open>The reverse-look getters of a new object\<close>

text \<open>
  C9. The claim asks that on a new Navigation object outside 2D the two reverse-look
  getters return the default false of the options \<open>reverseHorizontalLook\<close> and
  \<open>reverseVerticalLook\<close>. The getters read other properties
  (\<open>reverseHorizontalLookDirection\<close>, \<open>reverseVerticalLookDirection\<close>), which a new
  object does not have: both return \<^verbatim>\<open>undefined\<close>, with no warning, while the two
  options of the constructor hold false.
\<close>

theorem getReverseLookDirection_new:
  "getIs2D (Navigation cam) = False
   \<and> reverseHorizontalLook (options (Navigation cam)) = False
   \<and> reverseVerticalLook (options (Navigation cam)) = False
   \<and> getReverseHorizontalLookDirection (Navigation cam) = (JUndefined, [])
   \<and> getReverseVerticalLookDirection (Navigation cam) = (JUndefined, [])
   \<and> JUndefined \<noteq> JBool False"
  by (simp add: getReverseHorizontalLookDirection_def getReverseVerticalLookDirection_def
      getIs2D_def Navigation_def default_options_def)

lemma getReverseHorizontalLookDirection_after_set:
  "\<not> getIs2D nav \<Longrightarrow>
     getReverseHorizontalLookDirection (fst (setReverseHorizontalLookDirection nav b)) = (JBool b, [])"
  by (simp add: getReverseHorizontalLookDirection_def setReverseHorizontalLookDirection_def
      getIs2D_def)

subsection \<open>Vector arithmetic\<close>

lemma vec3_eq_iff: "(a::vec3) = b \<longleftrightarrow> vx a = vx b \<and> vy a = vy b \<and> vz a = vz b"
  by (cases a, cases b) simp

lemma Vector3_sel [simp]: "vx (Vector3 a b c) = a" "vy (Vector3 a b c) = b" "vz (Vector3 a b c) = c"
  by (simp_all add: Vector3_def)

lemma lengthSq_nonneg: "0 \<le> lengthSq a"
  by (simp add: lengthSq_def)

lemma length3_sqrt: "length3 a = sqrt (lengthSq a)"
  by (simp add: length3_def lengthSq_def)

lemma lengthSq_zero_iff: "lengthSq a = 0 \<longleftrightarrow> vx a = 0 \<and> vy a = 0 \<and> vz a = 0"
proof
  assume h: "lengthSq a = 0"
  have "vx a * vx a \<ge> 0" "vy a * vy a \<ge> 0" "vz a * vz a \<ge> 0" by simp_all
  with h have "vx a * vx a = 0 \<and> vy a * vy a = 0 \<and> vz a * vz a = 0"
    unfolding lengthSq_def by linarith
  then show "vx a = 0 \<and> vy a = 0 \<and> vz a = 0" by simp
qed (simp add: lengthSq_def)

lemma length3_zero_iff: "length3 a = 0 \<longleftrightarrow> lengthSq a = 0"
  by (simp add: length3_sqrt)

lemma length3_nonneg: "0 \<le> length3 a"
  by (simp add: length3_sqrt lengthSq_nonneg)

lemma lengthSq_multiplyScalar: "lengthSq (multiplyScalar a s) = s * s * lengthSq a"
  by (simp add: lengthSq_def multiplyScalar_def algebra_simps)

lemma length3_multiplyScalar: "length3 (multiplyScalar a s) = \<bar>s\<bar> * length3 a"
proof -
  have "length3 (multiplyScalar a s) = sqrt (s\<^sup>2 * lengthSq a)"
    by (simp add: length3_sqrt lengthSq_multiplyScalar power2_eq_square)
  also have "\<dots> = \<bar>s\<bar> * length3 a"
    by (simp add: real_sqrt_mult length3_sqrt)
  finally show ?thesis .
qed

lemma normalize3_multiplyScalar: "normalize3 a = multiplyScalar a (1 / length3 a)"
  by (simp add: normalize3_def divideScalar_def multiplyScalar_def)

lemma length3_normalize3: "lengthSq a \<noteq> 0 \<Longrightarrow> length3 (normalize3 a) = 1"
  using length3_nonneg [of a]
  by (simp add: normalize3_multiplyScalar length3_multiplyScalar length3_zero_iff)

lemma lengthSq_normalize3_zero_iff: "lengthSq (normalize3 a) = 0 \<longleftrightarrow> lengthSq a = 0"
  by (auto simp: normalize3_multiplyScalar lengthSq_multiplyScalar length3_zero_iff)

lemma dot_multiplyScalar_left: "dot (multiplyScalar a s) b = s * dot a b"
  by (simp add: dot_def multiplyScalar_def algebra_simps)


subsection \<open>Tangents of acute angles\<close>

lemma acute_regular:
  assumes "0 < h" and "h < pi / 2"
  shows "\<not> tangent_zero h" and "over_tan x h = x / tan h"
proof -
  have "0 < sin h" using assms by (rule sin_gt_zero2)
  then show "\<not> tangent_zero h" by (simp add: tangent_zero_def)
  have "0 < cos h" using assms by (intro cos_gt_zero) simp_all
  then show "over_tan x h = x / tan h" by (simp add: over_tan_def)
qed

lemma tangent_zero_iff: "tangent_zero h \<longleftrightarrow> cos h \<noteq> 0 \<and> tan h = 0"
proof -
  have "sin h = 0 \<Longrightarrow> cos h \<noteq> 0"
    using sin_cos_squared_add [of h] by auto
  then show ?thesis by (auto simp: tangent_zero_def tan_def)
qed

lemma right_angle: "\<not> tangent_zero (pi / 2)" "over_tan x (pi / 2) = 0"
  by (simp_all add: tangent_zero_def over_tan_def)

subsection \<open>The world right vector\<close>

lemma getWorldRightVector_branches:
  "getWorldRightVector nav =
     normalize3 (if \<bar>vz (getUp nav)\<bar> \<le> \<bar>vy (getUp nav)\<bar>
                then Vector3 (vy (getUp nav)) (- vx (getUp nav)) 0
                else if 0 \<le> vz (getUp nav) then Vector3 (vz (getUp nav)) 0 (- vx (getUp nav))
                else Vector3 (- vz (getUp nav)) 0 (vx (getUp nav)))"
  by (simp add: getWorldRightVector_def Let_def)

text \<open>
  C10. For a nonzero world-up vector, each of the three branches of
  \<open>getWorldRightVector\<close> builds, before normalisation, a nonzero vector whose dot product
  with the world-up vector is zero; the vector returned has length one and is orthogonal
  to the world-up vector.
\<close>

theorem getWorldRightVector_unit_orthogonal:
  assumes nz: "lengthSq (getUp nav) \<noteq> 0"
  shows "(\<bar>vz (getUp nav)\<bar> \<le> \<bar>vy (getUp nav)\<bar> \<longrightarrow>
            lengthSq (Vector3 (vy (getUp nav)) (- vx (getUp nav)) 0) \<noteq> 0
          \<and> dot (Vector3 (vy (getUp nav)) (- vx (getUp nav)) 0) (getUp nav) = 0
          \<and> getWorldRightVector nav = normalize3 (Vector3 (vy (getUp nav)) (- vx (getUp nav)) 0))
       \<and> (\<bar>vy (getUp nav)\<bar> < \<bar>vz (getUp nav)\<bar> \<and> 0 \<le> vz (getUp nav) \<longrightarrow>
            lengthSq (Vector3 (vz (getUp nav)) 0 (- vx (getUp nav))) \<noteq> 0
          \<and> dot (Vector3 (vz (getUp nav)) 0 (- vx (getUp nav))) (getUp nav) = 0
          \<and> getWorldRightVector nav = normalize3 (Vector3 (vz (getUp nav)) 0 (- vx (getUp nav))))
       \<and> (\<bar>vy (getUp nav)\<bar> < \<bar>vz (getUp nav)\<bar> \<and> vz (getUp nav) < 0 \<longrightarrow>
            lengthSq (Vector3 (- vz (getUp nav)) 0 (vx (getUp nav))) \<noteq> 0
          \<and> dot (Vector3 (- vz (getUp nav)) 0 (vx (getUp nav))) (getUp nav) = 0
          \<and> getWorldRightVector nav = normalize3 (Vector3 (- vz (getUp nav)) 0 (vx (getUp nav))))
       \<and> length3 (getWorldRightVector nav) = 1
       \<and> dot (getWorldRightVector nav) (getUp nav) = 0"
proof -
  define w where "w = getUp nav"
  define r where "r = (if \<bar>vz w\<bar> \<le> \<bar>vy w\<bar> then Vector3 (vy w) (- vx w) 0
                       else if 0 \<le> vz w then Vector3 (vz w) 0 (- vx w)
                       else Vector3 (- vz w) 0 (vx w))"
  have wnz: "vx w \<noteq> 0 \<or> vy w \<noteq> 0 \<or> vz w \<noteq> 0"
    using nz by (simp add: w_def lengthSq_zero_iff)
  have g: "getWorldRightVector nav = normalize3 r"
    by (simp add: getWorldRightVector_branches r_def w_def)
  have rnz: "lengthSq r \<noteq> 0"
    using wnz by (auto simp: r_def lengthSq_zero_iff)
  have rdot: "dot r w = 0"
    by (simp add: r_def dot_def)
  have unit: "length3 (getWorldRightVector nav) = 1"
    using rnz by (simp add: g length3_normalize3)
  have orth: "dot (getWorldRightVector nav) w = 0"
    by (simp add: g normalize3_multiplyScalar dot_multiplyScalar_left rdot)
  show ?thesis
    using g rnz rdot unit orth unfolding r_def w_def
    by (auto simp only: if_True if_False split: if_splits)
qed

theorem getWorldRightVector_unit_orthogonal_witness:
  "length3 (getWorldRightVector (Navigation (Some camera0))) = 1
   \<and> dot (getWorldRightVector (Navigation (Some camera0))) (Vector3 0 1 0) = 0
   \<and> getWorldRightVector (Navigation (Some camera0)) = normalize3 (Vector3 1 0 0)"
proof -
  have u: "getUp (Navigation (Some camera0)) = Vector3 0 1 0"
    by (simp add: getUp_def Navigation_def setCamera_def camera0_def)
  have nz: "lengthSq (getUp (Navigation (Some camera0))) \<noteq> 0"
    by (simp add: u lengthSq_def)
  show ?thesis
    using getWorldRightVector_unit_orthogonal [OF nz] unfolding u by auto
qed

subsection \<open>Panning\<close>

lemma sub_add_add: "sub (add t v) (add p v) = sub t p"
  by (simp add: sub_def add_def)

lemma getCameraRightVector_returns:
  "the_camera nav = Some c \<Longrightarrow> \<exists>r. getCameraRightVector nav False = Inr r"
  by (simp add: getCameraRightVector_def getCamera_def Let_def)

lemma panRelative_returns:
  assumes e: "isActionEnabled nav ''pan''" and c: "the_camera nav = Some c"
    and h: "height (viewport nav) \<noteq> 0"
  shows "\<exists>v. panRelative nav deltaX deltaY atDistance =
               Inr (nav\<lparr>the_camera := Some (c\<lparr>position := add (position c) v,
                                                target := add (target c) v, dirty := True\<rparr>)\<rparr>)"
proof -
  obtain ts where ts: "getWorldSize nav atDistance = Inr ts"
    using c h by (simp add: getWorldSize_def getCamera_def getScreenViewport_def Let_def)
  obtain r where r: "getCameraRightVector nav False = Inr r"
    using getCameraRightVector_returns [OF c] by blast
  obtain u where u: "getCameraUpVector nav = Inr u"
    using r by (simp add: getCameraUpVector_def)
  let ?v = "add (multiplyScalar r (deltaX * fst ts)) (multiplyScalar u (deltaY * snd ts))"
  have "panRelative nav deltaX deltaY atDistance =
      Inr (nav\<lparr>the_camera := Some (c\<lparr>position := add (position c) ?v,
                                       target := add (target c) ?v, dirty := True\<rparr>)\<rparr>)"
    using e c ts r u
    by (simp add: panRelative_def Let_def setView_def getPosition_def getTarget_def)
  then show ?thesis by blast
qed

text \<open>
  C5, as amended. With pan enabled, a camera installed and a viewport height that is not
  zero, \<open>panRelative\<close> returns a navigation whose camera position and target are the
  old ones plus one and the same offset vector, so that, over the reals, target minus
  position is unchanged.
\<close>

theorem panRelative_preserves_view:
  assumes "isActionEnabled nav ''pan''" and "the_camera nav = Some c"
    and "height (viewport nav) \<noteq> 0"
  shows "\<exists>nav' c' v. panRelative nav deltaX deltaY atDistance = Inr nav'
           \<and> the_camera nav' = Some c'
           \<and> position c' = add (position c) v \<and> target c' = add (target c) v
           \<and> sub (target c') (position c') = sub (target c) (position c)
           \<and> getEyeVector nav' = getEyeVector nav"
proof -
  obtain v where v: "panRelative nav deltaX deltaY atDistance =
      Inr (nav\<lparr>the_camera := Some (c\<lparr>position := add (position c) v,
                                       target := add (target c) v, dirty := True\<rparr>)\<rparr>)"
    using panRelative_returns [OF assms] by blast
  let ?c' = "c\<lparr>position := add (position c) v, target := add (target c) v, dirty := True\<rparr>"
  let ?nav' = "nav\<lparr>the_camera := Some ?c'\<rparr>"
  have "panRelative nav deltaX deltaY atDistance = Inr ?nav'
      \<and> the_camera ?nav' = Some ?c'
      \<and> position ?c' = add (position c) v \<and> target ?c' = add (target c) v
      \<and> sub (target ?c') (position ?c') = sub (target c) (position c)
      \<and> getEyeVector ?nav' = getEyeVector nav"
    using assms(2) by (simp add: v sub_add_add getEyeVector_def)
  then show ?thesis by blast
qed

lemma panRelative_disabled:
  "\<not> isActionEnabled nav ''pan'' \<Longrightarrow> panRelative nav deltaX deltaY atDistance = Inr nav"
  by (simp add: panRelative_def)

text \<open>
  C5, as claimed, fails: with pan enabled and a camera installed, on a viewport of height
  zero the aspect ratio is a division by zero and the offset added to position and target
  is not finite; with no camera installed \<open>panRelative\<close> ends in a type error.
\<close>

theorem panRelative_counterexample:
  "isActionEnabled (setScreenViewport (Navigation (Some camera0)) viewport_flat) ''pan''
   \<and> getCamera (setScreenViewport (Navigation (Some camera0)) viewport_flat)
       = getCamera (Navigation (Some camera0))
   \<and> height (getScreenViewport (setScreenViewport (Navigation (Some camera0)) viewport_flat)) = 0
   \<and> panRelative (setScreenViewport (Navigation (Some camera0)) viewport_flat) 1 2 10
       = Inl NonFinite
   \<and> isActionEnabled (Navigation None) ''pan''
   \<and> panRelative (Navigation None) 1 2 10 = Inl TypeError"
  by (simp add: panRelative_def getWorldSize_def getCamera_def getScreenViewport_def
      setScreenViewport_def viewport_flat_def isActionEnabled_def Navigation_def setCamera_def
      camera0_def default_options_def)

theorem panRelative_preserves_view_witness:
  "\<exists>nav' c'. panRelative (Navigation (Some camera0)) 1 2 10 = Inr nav'
           \<and> the_camera nav' = Some c'
           \<and> sub (target c') (position c') = sub (Vector3 0 0 0) (Vector3 0 0 10)"
proof -
  let ?nav = "Navigation (Some camera0)"
  let ?c = "\<lparr>position = Vector3 0 0 10, target = Vector3 0 0 0, pivot = Vector3 0 0 0,
            up = Vector3 0 1 0, worldup = Vector3 0 1 0, fov = 45, isPerspective = True,
            dirty = True\<rparr>"
  have e: "isActionEnabled ?nav ''pan''"
    by (simp add: isActionEnabled_def Navigation_def default_options_def)
  have c: "the_camera ?nav = Some ?c"
    by (simp add: Navigation_def setCamera_def camera0_def)
  have h: "height (viewport ?nav) \<noteq> 0"
    by (simp add: Navigation_def)
  show ?thesis
    using panRelative_preserves_view [OF e c h, of 1 2 10] by auto
qed

subsection \<open>Dolly\<close>

lemma dollyFromPoint_unfold:
  assumes "isActionEnabled nav ''zoom''" and "kEpsilon < \<bar>distance\<bar>"
    and "the_camera nav = Some c" and "length3 (sub point (position c)) \<noteq> 0"
  shows "dollyFromPoint nav distance point =
     (let dollyVec = sub point (position c);
          oldLength = length3 dollyVec;
          newLength = (if oldLength + distance < kEpsilon * 10 then kEpsilon * 10
                       else oldLength + distance);
          scaleFactor = newLength / oldLength;
          dollyVec1 = multiplyScalar dollyVec scaleFactor;
          newPosition = add (Vector3 (- vx dollyVec1) (- vy dollyVec1) (- vz dollyVec1)) point
      in if \<bar>scaleFactor - 1\<bar> > kEpsilon
         then Inr (setView nav newPosition
                (add (if \<not> isPerspective c then multiplyScalar (getEyeVector nav) scaleFactor
                      else getEyeVector nav) newPosition))
         else Inr nav)"
  using assms
  by (simp add: dollyFromPoint_def Let_def getPosition_def getCamera_def)

text \<open>
  Away from the camera position the floor holds: with zoom enabled, a distance above
  \<open>kEpsilon\<close> in absolute value, a camera installed and a point other than the camera
  position, \<open>dollyFromPoint\<close> returns, and it either leaves the navigation as it is or
  moves the camera to a position at least \<open>10 * kEpsilon\<close> away from the point.
\<close>

theorem dollyFromPoint_floor:
  assumes e: "isActionEnabled nav ''zoom''" and d: "kEpsilon < \<bar>distance\<bar>"
    and c: "the_camera nav = Some c" and ne: "length3 (sub point (position c)) \<noteq> 0"
  shows "\<exists>nav'. dollyFromPoint nav distance point = Inr nav'
           \<and> (nav' = nav \<or> 10 * kEpsilon \<le> length3 (sub (getPosition nav') point))"
proof -
  let ?old = "length3 (sub point (position c))"
  let ?new = "if ?old + distance < kEpsilon * 10 then kEpsilon * 10 else ?old + distance"
  let ?sf = "?new / ?old"
  let ?dv = "multiplyScalar (sub point (position c)) ?sf"
  let ?np = "add (Vector3 (- vx ?dv) (- vy ?dv) (- vz ?dv)) point"
  let ?nav' = "setView nav ?np
            (add (if \<not> isPerspective c then multiplyScalar (getEyeVector nav) ?sf
                  else getEyeVector nav) ?np)"
  note u = dollyFromPoint_unfold [OF e d c ne, unfolded Let_def]
  have op: "0 < ?old"
    using ne length3_nonneg [of "sub point (position c)"] by simp
  have nl: "kEpsilon * 10 \<le> ?new" by simp
  have np: "0 < ?new" using nl by (simp add: kEpsilon_def)
  show ?thesis
  proof (cases "\<bar>?sf - 1\<bar> > kEpsilon")
    case False
    then have "dollyFromPoint nav distance point = Inr nav"
      by (simp only: u if_False)
    then show ?thesis by simp
  next
    case True
    then have r: "dollyFromPoint nav distance point = Inr ?nav'"
      by (simp only: u if_True)
    have "getPosition ?nav' = ?np"
      using c by (simp add: setView_def getPosition_def)
    moreover have "sub ?np point = multiplyScalar (sub point (position c)) (- ?sf)"
      by (simp add: sub_def add_def multiplyScalar_def)
    ultimately have "length3 (sub (getPosition ?nav') point) = \<bar>?sf\<bar> * ?old"
      by (simp only: length3_multiplyScalar abs_minus_cancel)
    also have "\<dots> = ?new"
      using op np by simp
    finally have "10 * kEpsilon \<le> length3 (sub (getPosition ?nav') point)"
      using nl by (simp add: mult.commute)
    with r show ?thesis by blast
  qed
qed

theorem dollyFromPoint_floor_witness:
  "\<exists>nav'. dollyFromPoint (Navigation (Some camera0)) (- 100) (Vector3 0 0 0) = Inr nav'
     \<and> (nav' = Navigation (Some camera0)
          \<or> 10 * kEpsilon \<le> length3 (sub (getPosition nav') (Vector3 0 0 0)))"
proof -
  let ?nav = "Navigation (Some camera0)"
  let ?c = "\<lparr>position = Vector3 0 0 10, target = Vector3 0 0 0, pivot = Vector3 0 0 0,
            up = Vector3 0 1 0, worldup = Vector3 0 1 0, fov = 45, isPerspective = True,
            dirty = True\<rparr>"
  have e: "isActionEnabled ?nav ''zoom''"
    by (simp add: isActionEnabled_def Navigation_def default_options_def)
  have c: "the_camera ?nav = Some ?c"
    by (simp add: Navigation_def setCamera_def camera0_def)
  have d: "kEpsilon < \<bar>- 100 :: real\<bar>" by (simp add: kEpsilon_def)
  have "sqrt 100 \<noteq> 0" by simp
  then have ne: "length3 (sub (Vector3 0 0 0) (position ?c)) \<noteq> 0"
    by (simp add: length3_def sub_def)
  show ?thesis
    by (rule dollyFromPoint_floor [OF e d c ne])
qed

text \<open>
  C4. The claim asks that whenever \<open>dollyFromPoint\<close> repositions the camera, the new
  position is at least \<open>10 * kEpsilon\<close> away from the point. The source divides the new
  length by the old distance between the point and the camera: when the point is the
  camera position itself the scale factor is infinite and the position written to the
  camera is not a number.
\<close>

theorem dollyFromPoint_at_camera_position:
  assumes "isActionEnabled nav ''zoom''" and "kEpsilon < \<bar>distance\<bar>"
    and "the_camera nav = Some c"
  shows "dollyFromPoint nav distance (position c) = Inl NonFinite"
  using assms
  by (simp add: dollyFromPoint_def Let_def getPosition_def getCamera_def sub_def length3_def)

theorem dollyFromPoint_at_camera_position_witness:
  "dollyFromPoint (Navigation (Some camera0)) 1 (Vector3 0 0 10) = Inl NonFinite"
proof -
  let ?nav = "Navigation (Some camera0)"
  let ?c = "\<lparr>position = Vector3 0 0 10, target = Vector3 0 0 0, pivot = Vector3 0 0 0,
            up = Vector3 0 1 0, worldup = Vector3 0 1 0, fov = 45, isPerspective = True,
            dirty = True\<rparr>"
  have e: "isActionEnabled ?nav ''zoom''"
    by (simp add: isActionEnabled_def Navigation_def default_options_def)
  have c: "the_camera ?nav = Some ?c"
    by (simp add: Navigation_def setCamera_def camera0_def)
  have d: "kEpsilon < \<bar>1::real\<bar>" by (simp add: kEpsilon_def)
  show ?thesis
    using dollyFromPoint_at_camera_position [OF e d c] by simp
qed

subsection \<open>Fit to view\<close>


lemma computeFit_extent:
  assumes "bounds = Some b" and "\<not> empty3 b"
  shows "computeFit nav oldpos oldcoi f bounds =
     (if tangent_zero (degToRad f / 2) then Inl NonFinite
      else Inr \<lparr>fit_position =
                  add (center b)
                    (multiplyScalar (normalize3 (sub oldpos oldcoi))
                       (over_tan
                          (fit_radius b * (if \<not> getIs2D nav then max 1 (0.9 + f / 100 * 0.5) else 1))
                          (degToRad f / 2))),
                fit_target = center b\<rparr>)"
  using assms
  by (simp add: computeFit_def Let_def fit_radius_def length3_def degToRad_def kMaxFOV_def)


lemma computeFit_spec_projection:
  "twoD \<or> p \<Longrightarrow>
     computeFit_spec twoD p oldpos oldcoi f bounds = computeFit_spec twoD True oldpos oldcoi f bounds"
  by (auto simp: computeFit_spec_def)



lemma half_of_180: "degToRad 180 / 2 = pi / 2"
  by (simp add: degToRad_def)


text \<open>
  At a field of view of 180 degrees the tangent of the half angle is infinite, not zero:
  the fit is returned, with the position at the centre of the bounds.
\<close>

lemma computeFit_straight_angle:
  "computeFit nav oldpos oldcoi 180 (Some box_x)
     = Inr \<lparr>fit_position = Vector3 0 0 0, fit_target = Vector3 0 0 0\<rparr>"
proof -
  have ne: "\<not> empty3 box_x" by (simp add: empty3_def box_x_def)
  have c: "center box_x = Vector3 0 0 0"
    by (simp add: center_def box_x_def add_def multiplyScalar_def)
  show ?thesis
    by (simp add: computeFit_extent [OF refl ne] half_of_180 right_angle c add_def
        multiplyScalar_def)
qed


subsection \<open>Orientation\<close>

lemma orient_regular:
  "lengthSq (normalize3 (crossVectors u (normalize3 (sub from tgt)))) \<noteq> 0 \<Longrightarrow>
   lengthSq (normalize3 (sub from tgt)) \<noteq> 0 \<Longrightarrow>
     zaxis (orient tgt from u) = normalize3 (sub from tgt)"
  by (simp add: orient_def Let_def)

lemma orient_singular:
  assumes "lengthSq (normalize3 (sub from tgt)) \<noteq> 0"
    and "lengthSq (normalize3 (crossVectors u (normalize3 (sub from tgt)))) = 0"
  shows "orient tgt from u =
     (let z = normalize3 (sub from tgt);
          z2 = (if vz u > vy u then z\<lparr>vy := vy z - 0.0001\<rparr> else z\<lparr>vz := vz z + 0.0001\<rparr>);
          x2 = normalize3 (crossVectors u z2)
      in \<lparr>xaxis = x2, yaxis = crossVectors z2 x2, zaxis = z2\<rparr>)"
  using assms by (simp add: orient_def Let_def)

lemma det3_frame:
  "det3 \<lparr>xaxis = multiplyScalar w s, yaxis = crossVectors z (multiplyScalar w s), zaxis = z\<rparr>
     = s * s * (lengthSq w * lengthSq z - dot w z * dot w z)"
  by (simp add: det3_def dot_def crossVectors_def multiplyScalar_def lengthSq_def algebra_simps)

lemma dot_cross_right: "dot (crossVectors a b) b = 0"
  by (simp add: dot_def crossVectors_def algebra_simps)

lemma det3_look:
  assumes "lengthSq (crossVectors u z) \<noteq> 0"
  shows "det3 \<lparr>xaxis = normalize3 (crossVectors u z),
              yaxis = crossVectors z (normalize3 (crossVectors u z)), zaxis = z\<rparr> = lengthSq z"
proof -
  define w where "w = crossVectors u z"
  define s where "s = 1 / length3 w"
  have p: "0 < lengthSq w" using assms lengthSq_nonneg [of w] by (simp add: w_def)
  have ss: "s * s * lengthSq w = 1"
    using p by (simp add: s_def length3_sqrt)
  have d: "dot w z = 0" by (simp add: w_def dot_cross_right)
  have "det3 \<lparr>xaxis = multiplyScalar w s, yaxis = crossVectors z (multiplyScalar w s), zaxis = z\<rparr>
      = s * s * (lengthSq w * lengthSq z - dot w z * dot w z)"
    by (rule det3_frame)
  also have "\<dots> = (s * s * lengthSq w) * lengthSq z"
    by (simp add: d)
  also have "\<dots> = lengthSq z"
    by (simp only: ss mult_1)
  finally show ?thesis
    by (simp only: normalize3_multiplyScalar w_def s_def)
qed

lemma cross_zero_components:
  assumes "lengthSq (crossVectors u z) = 0"
  shows "vy u * vz z = vz u * vy z" "vz u * vx z = vx u * vz z" "vx u * vy z = vy u * vx z"
  using assms by (simp_all add: lengthSq_zero_iff crossVectors_def)

lemma lengthSq_unit: "lengthSq a \<noteq> 0 \<Longrightarrow> lengthSq (normalize3 a) = 1"
proof -
  assume "lengthSq a \<noteq> 0"
  then have "length3 (normalize3 a) = 1" by (rule length3_normalize3)
  then have "sqrt (lengthSq (normalize3 a)) = 1" by (simp add: length3_sqrt)
  then show ?thesis by simp
qed

lemma cross_orient_perturb:
  assumes "lengthSq (crossVectors u z) = 0"
  shows "crossVectors u (orient_perturb u z) =
           (if vz u > vy u then Vector3 (vz u * 0.0001) 0 (- (vx u * 0.0001))
            else Vector3 (vy u * 0.0001) (- (vx u * 0.0001)) 0)"
  using cross_zero_components [OF assms]
  by (simp add: orient_perturb_def crossVectors_def vec3_eq_iff algebra_simps)

lemma orient_perturb_nonzero:
  assumes "lengthSq z = 1"
  shows "lengthSq (orient_perturb u z) \<noteq> 0"
proof
  assume "lengthSq (orient_perturb u z) = 0"
  then have "vx (orient_perturb u z) = 0 \<and> vy (orient_perturb u z) = 0 \<and> vz (orient_perturb u z) = 0"
    by (simp add: lengthSq_zero_iff)
  then have "(vx z = 0 \<and> vy z = 0.0001 \<and> vz z = 0) \<or> (vx z = 0 \<and> vy z = 0 \<and> vz z = - 0.0001)"
    by (auto simp: orient_perturb_def split: if_splits)
  then show False
  proof (elim disjE conjE)
    assume c: "vx z = 0" "vy z = 0.0001" "vz z = 0"
    have "lengthSq z = 0.00000001" unfolding lengthSq_def c by simp
    with assms show False by simp
  next
    assume c: "vx z = 0" "vy z = 0" "vz z = - 0.0001"
    have "lengthSq z = 0.00000001" unfolding lengthSq_def c by simp
    with assms show False by simp
  qed
qed

text \<open>
  C6, as amended. When the normalised view axis \<open>z\<close> is not zero and the right axis
  computed from it has length zero, \<open>orient\<close> subtracts 0.0001 from the Y component of
  \<open>z\<close> if \<open>up.z > up.y\<close> and otherwise adds 0.0001 to its Z component, then recomputes
  the right axis once from the perturbed axis. The basis is not degenerate whenever
  \<open>up\<close> has a nonzero X component or a nonzero component on the other axis (Z in the
  first case, Y in the second).
\<close>

theorem orient_perturbation:
  assumes z: "lengthSq (normalize3 (sub from tgt)) \<noteq> 0"
    and x: "lengthSq (normalize3 (crossVectors u (normalize3 (sub from tgt)))) = 0"
  shows "zaxis (orient tgt from u) =
           (if vz u > vy u
            then (normalize3 (sub from tgt))\<lparr>vy := vy (normalize3 (sub from tgt)) - 0.0001\<rparr>
            else (normalize3 (sub from tgt))\<lparr>vz := vz (normalize3 (sub from tgt)) + 0.0001\<rparr>)
       \<and> xaxis (orient tgt from u) = normalize3 (crossVectors u (zaxis (orient tgt from u)))
       \<and> yaxis (orient tgt from u) = crossVectors (zaxis (orient tgt from u)) (xaxis (orient tgt from u))
       \<and> (vx u \<noteq> 0 \<or> (if vz u > vy u then vz u \<noteq> 0 else vy u \<noteq> 0)
            \<longrightarrow> det3 (orient tgt from u) \<noteq> 0)"
proof -
  let ?z = "normalize3 (sub from tgt)"
  let ?z2 = "orient_perturb u ?z"
  have o: "orient tgt from u =
      \<lparr>xaxis = normalize3 (crossVectors u ?z2),
       yaxis = crossVectors ?z2 (normalize3 (crossVectors u ?z2)), zaxis = ?z2\<rparr>"
    by (simp add: orient_singular [OF z x] Let_def orient_perturb_def)
  have x0: "lengthSq (crossVectors u ?z) = 0"
    using x by (simp add: lengthSq_normalize3_zero_iff)
  have z1: "lengthSq ?z = 1"
    using z by (simp add: lengthSq_normalize3_zero_iff lengthSq_unit)
  have nd: "det3 (orient tgt from u) \<noteq> 0"
    if c: "vx u \<noteq> 0 \<or> (if vz u > vy u then vz u \<noteq> 0 else vy u \<noteq> 0)"
  proof -
    have "lengthSq (crossVectors u ?z2) \<noteq> 0"
      using c by (auto simp: cross_orient_perturb [OF x0] lengthSq_zero_iff split: if_splits)
    then have "det3 \<lparr>xaxis = normalize3 (crossVectors u ?z2),
        yaxis = crossVectors ?z2 (normalize3 (crossVectors u ?z2)), zaxis = ?z2\<rparr> = lengthSq ?z2"
      by (rule det3_look)
    then have "det3 (orient tgt from u) = lengthSq ?z2"
      by (simp only: o)
    then show ?thesis using orient_perturb_nonzero [OF z1, of u] by simp
  qed
  show ?thesis
    using nd by (simp add: o) (simp add: orient_perturb_def)
qed

lemma normalize3_unit_y: "normalize3 (sub (Vector3 0 1 0) (Vector3 0 0 0)) = Vector3 0 1 0"
  by (simp add: normalize3_def divideScalar_def sub_def length3_def)

lemma normalize3_zero: "normalize3 (Vector3 0 0 0) = Vector3 0 0 0"
  by (simp add: normalize3_def divideScalar_def length3_def)

theorem orient_perturbation_witness:
  "zaxis (orient (Vector3 0 0 0) (Vector3 0 1 0) (Vector3 0 1 0)) = Vector3 0 1 0.0001
   \<and> det3 (orient (Vector3 0 0 0) (Vector3 0 1 0) (Vector3 0 1 0)) \<noteq> 0"
proof -
  have z: "lengthSq (normalize3 (sub (Vector3 0 1 0) (Vector3 0 0 0))) \<noteq> 0"
    by (simp add: normalize3_unit_y lengthSq_def)
  have x: "lengthSq (normalize3 (crossVectors (Vector3 0 1 0)
              (normalize3 (sub (Vector3 0 1 0) (Vector3 0 0 0))))) = 0"
    by (simp add: normalize3_unit_y crossVectors_def normalize3_zero lengthSq_def)
  show ?thesis
    using orient_perturbation [OF z x]
    by (simp add: normalize3_unit_y vec3_eq_iff)
qed

text \<open>
  C6, as claimed, fails: with \<open>up = (0,1,0)\<close> and the view along Y the source adds the
  epsilon to the Z component of the view axis, where the claim subtracts it.
\<close>

theorem orient_perturbation_counterexample:
  "lengthSq (normalize3 (sub (Vector3 0 1 0) (Vector3 0 0 0))) \<noteq> 0
   \<and> lengthSq (normalize3 (crossVectors (Vector3 0 1 0)
         (normalize3 (sub (Vector3 0 1 0) (Vector3 0 0 0))))) = 0
   \<and> zaxis (orient (Vector3 0 0 0) (Vector3 0 1 0) (Vector3 0 1 0)) = Vector3 0 1 0.0001
   \<and> perturb_spec (Vector3 0 1 0) (normalize3 (sub (Vector3 0 1 0) (Vector3 0 0 0)))
       = Vector3 0 1 (- 0.0001)
   \<and> zaxis (orient (Vector3 0 0 0) (Vector3 0 1 0) (Vector3 0 1 0))
       \<noteq> perturb_spec (Vector3 0 1 0) (normalize3 (sub (Vector3 0 1 0) (Vector3 0 0 0)))"
proof -
  have c: "crossVectors (Vector3 0 1 0) (Vector3 0 1 0) = Vector3 0 0 0"
    by (simp add: crossVectors_def)
  note n0 = normalize3_zero
  have 1: "zaxis (orient (Vector3 0 0 0) (Vector3 0 1 0) (Vector3 0 1 0)) = Vector3 0 1 0.0001"
    by (simp add: orient_def Let_def normalize3_unit_y c n0 lengthSq_def vec3_eq_iff)
  have 2: "perturb_spec (Vector3 0 1 0) (normalize3 (sub (Vector3 0 1 0) (Vector3 0 0 0)))
       = Vector3 0 1 (- 0.0001)"
    by (simp add: perturb_spec_def normalize3_unit_y vec3_eq_iff)
  have 3: "lengthSq (normalize3 (sub (Vector3 0 1 0) (Vector3 0 0 0))) \<noteq> 0"
    by (simp add: normalize3_unit_y lengthSq_def)
  have 4: "lengthSq (normalize3 (crossVectors (Vector3 0 1 0)
         (normalize3 (sub (Vector3 0 1 0) (Vector3 0 0 0))))) = 0"
    by (simp add: normalize3_unit_y c n0 lengthSq_def)
  have 5: "Vector3 0 1 0.0001 \<noteq> Vector3 0 1 (- 0.0001)"
    by (simp add: vec3_eq_iff)
  show ?thesis
    using 3 4 5 by (simp only: 1 2) simp
qed

text \<open>
  Outside the amended statement: with \<open>up = (0,-1,0)\<close> and the view along Y the test
  \<open>up.z > up.y\<close> picks the Y component, the perturbed axis is still parallel to \<open>up\<close>,
  and the basis written is degenerate.
\<close>

lemma orient_degenerate_example:
  "det3 (orient (Vector3 0 0 0) (Vector3 0 1 0) (Vector3 0 (- 1) 0)) = 0"
proof -
  note n0 = normalize3_zero
  have "xaxis (orient (Vector3 0 0 0) (Vector3 0 1 0) (Vector3 0 (- 1) 0)) = Vector3 0 0 0"
    by (simp add: orient_def Let_def normalize3_unit_y crossVectors_def n0 lengthSq_def)
  then show ?thesis
    by (simp add: det3_def dot_def)
qed

subsection \<open>Bounds on pi, arctan and tan\<close>

lemma arctan_mvt:
  assumes "0 < x"
  shows "\<exists>z. 0 < z \<and> z < x \<and> arctan x = x * inverse (1 + z\<^sup>2)"
proof -
  have "\<exists>z. 0 < z \<and> z < x \<and> arctan x - arctan 0 = (x - 0) * inverse (1 + z\<^sup>2)"
    using assms by (intro MVT2) (auto intro: DERIV_arctan)
  then show ?thesis by simp
qed

lemma arctan_le_arg: "0 \<le> x \<Longrightarrow> arctan x \<le> x"
proof (cases "x = 0")
  case False
  assume "0 \<le> x"
  with False have p: "0 < x" by simp
  then obtain z where z: "arctan x = x * inverse (1 + z\<^sup>2)"
    using arctan_mvt by blast
  have "inverse (1 + z\<^sup>2) \<le> 1"
    by (simp add: inverse_le_1_iff)
  then have "x * inverse (1 + z\<^sup>2) \<le> x * 1"
    using p by (intro mult_left_mono) simp_all
  then show ?thesis by (simp add: z)
qed simp

lemma arctan_ge_rational: "0 \<le> x \<Longrightarrow> x / (1 + x\<^sup>2) \<le> arctan x"
proof (cases "x = 0")
  case False
  assume "0 \<le> x"
  with False have p: "0 < x" by simp
  then obtain z where z: "0 < z" "z < x" "arctan x = x * inverse (1 + z\<^sup>2)"
    using arctan_mvt by blast
  have "z\<^sup>2 \<le> x\<^sup>2"
    using z by (intro power_mono) simp_all
  then have "inverse (1 + x\<^sup>2) \<le> inverse (1 + z\<^sup>2)"
    by (intro le_imp_inverse_le) (simp_all add: add_pos_nonneg)
  then have "x * inverse (1 + x\<^sup>2) \<le> x * inverse (1 + z\<^sup>2)"
    using p by (intro mult_left_mono) simp_all
  then show ?thesis by (simp add: z divide_inverse)
qed simp

lemma abs_arctan_le_abs: "\<bar>arctan x\<bar> \<le> \<bar>x\<bar>"
proof (cases "0 \<le> x")
  case True
  then show ?thesis using arctan_le_arg [of x] by simp
next
  case False
  then have "arctan (- x) \<le> - x" by (intro arctan_le_arg) simp
  with False show ?thesis by (simp add: arctan_minus)
qed

lemma pi_ge_3: "3 \<le> pi"
proof -
  have "sin (pi / 6) \<le> pi / 6" by (intro sin_x_le_x) simp
  then show ?thesis by (simp add: sin_30)
qed

lemma pi_le_32: "pi \<le> 3.2"
proof -
  have "arctan (1 / 5) \<le> 1 / 5" by (intro arctan_le_arg) simp
  moreover have "0 \<le> arctan (1 / 239)" by simp
  ultimately have "4 * arctan (1 / 5) - arctan (1 / 239) \<le> 4 / 5" by linarith
  then have "pi / 4 \<le> 4 / 5" by (simp only: machin [symmetric])
  then show ?thesis by simp
qed

lemma tan_ge_arg:
  assumes "0 \<le> x" and "x < pi / 2"
  shows "x \<le> tan x"
proof -
  have "0 \<le> tan x" using assms by (rule tan_pos_pi2_le)
  then have "arctan (tan x) \<le> tan x" by (rule arctan_le_arg)
  moreover have "arctan (tan x) = x" using assms by (intro arctan_tan) simp_all
  ultimately show ?thesis by simp
qed


lemma arctan_6_5: "arctan (6 / 5) = pi / 4 + arctan (1 / 11)"
proof -
  have "arctan 1 + arctan (1 / 11) = arctan ((1 + 1 / 11) / (1 - 1 * (1 / 11)))"
    by (rule arctan_add) simp_all
  then show ?thesis by (simp add: arctan_one)
qed

lemma arctan_8_7: "arctan (8 / 7) = pi / 4 + arctan (1 / 15)"
proof -
  have "arctan 1 + arctan (1 / 15) = arctan ((1 + 1 / 15) / (1 - 1 * (1 / 15)))"
    by (rule arctan_add) simp_all
  then show ?thesis by (simp add: arctan_one)
qed

lemma arctan_6_5_ge: "5 * pi / 18 \<le> arctan (6 / 5)"
proof -
  have "(1 / 11) / (1 + (1 / 11)\<^sup>2) \<le> arctan (1 / 11)"
    by (rule arctan_ge_rational) simp
  then have "11 / 122 \<le> arctan (1 / 11)" by (simp add: power2_eq_square)
  moreover have "pi / 36 \<le> 11 / 122" using pi_le_32 by simp
  ultimately show ?thesis by (simp add: arctan_6_5)
qed

lemma tan_50_le: "tan (5 * pi / 18) \<le> 6 / 5"
proof -
  have "tan (5 * pi / 18) \<le> tan (arctan (6 / 5))"
    using arctan_6_5_ge arctan_ubound [of "6 / 5"] by (intro tan_mono_le) simp_all
  then show ?thesis by (simp add: tan_arctan)
qed

lemma arctan_diff_pos:
  assumes "0 < a" and "0 < b"
  shows "arctan a - arctan b = arctan ((a - b) / (1 + a * b))"
proof (rule arctan_unique [symmetric])
  have a: "0 < arctan a" "arctan a < pi / 2" using assms arctan_ubound by simp_all
  have b: "0 < arctan b" "arctan b < pi / 2" using assms arctan_ubound by simp_all
  show 1: "- (pi / 2) < arctan a - arctan b" using a b by linarith
  show 2: "arctan a - arctan b < pi / 2" using a b by linarith
  have "cos (arctan a - arctan b) \<noteq> 0"
    using cos_gt_zero_pi [OF 1 2] by simp
  then show "tan (arctan a - arctan b) = (a - b) / (1 + a * b)"
    by (simp add: tan_diff tan_arctan)
qed

subsection \<open>Field of view to focal length\<close>

lemma tan_clamp_pos: "0 < tan (0.00005::real)"
proof -
  have "(0.00005::real) \<le> tan 0.00005"
    using pi_ge_3 by (intro tan_ge_arg) simp_all
  then show ?thesis by simp
qed



lemma fov2fl_positive:
  "0 < degToRad f \<Longrightarrow>
     fov2fl f = (if tangent_zero (degToRad f / 2) then Inl NonFinite
                 else Inr (round (over_tan 12 (degToRad f / 2))))"
  by (simp add: fov2fl_def Let_def)

lemma fov2fl_acute:
  assumes "0 < degToRad f" and "degToRad f < pi"
  shows "fov2fl f = Inr (round (12 / tan (degToRad f / 2)))"
proof -
  have a: "0 < degToRad f / 2" "degToRad f / 2 < pi / 2" using assms by simp_all
  show ?thesis
    using assms(1) acute_regular(1) [OF a] acute_regular(2) [OF a, of 12]
    by (simp add: fov2fl_positive)
qed






subsection \<open>The round trip through the focal length\<close>

lemma half_angle_range:
  assumes "0 < f" and "f \<le> 100"
  shows "0 < degToRad f / 2" and "degToRad f / 2 \<le> 5 * pi / 18" and "degToRad f / 2 < pi / 2"
proof -
  show "0 < degToRad f / 2" using assms by (simp add: degToRad_def)
  show le: "degToRad f / 2 \<le> 5 * pi / 18" using assms by (simp add: degToRad_def)
  have "5 * pi / 18 < pi / 2" by simp
  with le show "degToRad f / 2 < pi / 2" by linarith
qed

lemma tan_half_angle_range:
  assumes "0 < f" and "f \<le> 100"
  shows "0 < tan (degToRad f / 2)" and "tan (degToRad f / 2) \<le> 6 / 5"
proof -
  note h = half_angle_range [OF assms]
  show "0 < tan (degToRad f / 2)" using h by (intro tan_gt_zero)
  have "tan (degToRad f / 2) \<le> tan (5 * pi / 18)"
    using h by (intro tan_mono_le) simp_all
  then show "tan (degToRad f / 2) \<le> 6 / 5" using tan_50_le by linarith
qed

lemma arctan_shift_bound:
  fixes n x :: real
  assumes n: "10 \<le> n" and x: "10 \<le> x" and d: "\<bar>n - x\<bar> \<le> 1 / 2"
  shows "\<bar>arctan (12 / n) - arctan (12 / x)\<bar> \<le> 6 / 244"
proof -
  have np: "0 < n" and xp: "0 < x" using n x by simp_all
  have "arctan (12 / n) - arctan (12 / x)
      = arctan ((12 / n - 12 / x) / (1 + (12 / n) * (12 / x)))"
    using np xp by (intro arctan_diff_pos) simp_all
  also have "(12 / n - 12 / x) / (1 + (12 / n) * (12 / x)) = 12 * (x - n) / (n * x + 144)"
  proof -
    have nx: "n * x \<noteq> 0" using np xp by simp
    have e1: "12 / n - 12 / x = 12 * (x - n) / (n * x)"
      using np xp by (simp add: field_simps)
    have e2: "1 + (12 / n) * (12 / x) = (n * x + 144) / (n * x)"
      using np xp by (simp add: field_simps)
    show ?thesis
      unfolding e1 e2 using nx by simp
  qed
  finally have "\<bar>arctan (12 / n) - arctan (12 / x)\<bar> \<le> \<bar>12 * (x - n) / (n * x + 144)\<bar>"
    by (simp only: abs_arctan_le_abs)
  also have "\<dots> = \<bar>12 * (x - n)\<bar> / (n * x + 144)"
    using np xp by (simp add: abs_mult)
  also have "\<dots> \<le> 6 / 244"
  proof (rule frac_le)
    have "\<bar>12 * (x - n)\<bar> = \<bar>12\<bar> * \<bar>x - n\<bar>"
      by (rule abs_mult)
    also have "\<dots> = 12 * \<bar>n - x\<bar>"
      by (simp only: abs_minus_commute abs_numeral)
    finally have e: "\<bar>12 * (x - n)\<bar> = 12 * \<bar>n - x\<bar>" .
    show "\<bar>12 * (x - n)\<bar> \<le> 6" unfolding e using d by simp
    have "10 * 10 \<le> n * x" using n x by (intro mult_mono) simp_all
    then show "244 \<le> n * x + 144" by simp
  qed simp_all
  finally show ?thesis .
qed

text \<open>
  C8, as amended. For every field of view in the legal range, \<open>fov2fl\<close> returns a focal
  length, and \<open>fl2fov\<close> of it differs from the field of view by at most 3 degrees.
\<close>

theorem fov_roundtrip:
  assumes "kMinFOV \<le> f" and "f \<le> kMaxFOV"
  shows "\<exists>n. fov2fl f = Inr n \<and> \<bar>fl2fov (of_int n) - f\<bar> \<le> 3"
proof -
  have f: "0 < f" "f \<le> 100" using assms by (simp_all add: kMinFOV_def kMaxFOV_def)
  let ?h = "degToRad f / 2"
  let ?x = "12 / tan ?h"
  let ?n = "round ?x"
  note h = half_angle_range [OF f]
  note t = tan_half_angle_range [OF f]
  have r: "0 < degToRad f" using h(1) by simp
  have "degToRad f < pi" using h(3) by simp
  with r have code: "fov2fl f = Inr ?n" by (rule fov2fl_acute)
  have x10: "10 \<le> ?x" using t by (simp add: pos_le_divide_eq)
  have "round (10::real) \<le> ?n" using x10 by (rule round_mono)
  then have n10: "10 \<le> (of_int ?n :: real)" by simp
  have d: "\<bar>of_int ?n - ?x\<bar> \<le> 1 / 2" by (rule of_int_round_abs_le)
  have bk: "fl2fov (of_int ?n) = radToDeg (2 * arctan (12 / of_int ?n))"
    using n10 by (simp add: fl2fov_def Let_def)
  have "arctan (tan ?h) = ?h" using h by (intro arctan_tan) simp_all
  moreover have "12 / ?x = tan ?h" using t(1) by simp
  ultimately have hx: "?h = arctan (12 / ?x)" by simp
  have fw: "f = radToDeg (2 * arctan (12 / ?x))"
    by (subst hx [symmetric]) (simp add: radToDeg_def degToRad_def)
  have "fl2fov (of_int ?n) - f
      = (360 / pi) * (arctan (12 / of_int ?n) - arctan (12 / ?x))"
    by (subst fw, subst bk) (simp add: radToDeg_def algebra_simps)
  then have "\<bar>fl2fov (of_int ?n) - f\<bar>
      = \<bar>(360 / pi) * (arctan (12 / of_int ?n) - arctan (12 / ?x))\<bar>"
    by (simp only:)
  also have "\<dots> = \<bar>360 / pi\<bar> * \<bar>arctan (12 / of_int ?n) - arctan (12 / ?x)\<bar>"
    by (rule abs_mult)
  also have "\<bar>360 / pi\<bar> = 360 / pi"
    by simp
  finally have "\<bar>fl2fov (of_int ?n) - f\<bar>
      = (360 / pi) * \<bar>arctan (12 / of_int ?n) - arctan (12 / ?x)\<bar>" .
  also have "\<dots> \<le> (360 / pi) * (6 / 244)"
    using arctan_shift_bound [OF n10 x10 d] by (intro mult_left_mono) simp_all
  also have "\<dots> \<le> 3"
    using pi_ge_3 by (simp add: field_simps)
  finally show ?thesis using code by blast
qed

theorem fov_roundtrip_witness:
  "\<exists>n. fov2fl 90 = Inr n \<and> \<bar>fl2fov (of_int n) - 90\<bar> \<le> 3"
proof -
  have "kMinFOV \<le> 90" and "90 \<le> kMaxFOV"
    by (simp_all add: kMinFOV_def kMaxFOV_def)
  then show ?thesis by (rule fov_roundtrip)
qed

text \<open>
  C8, as claimed, fails: 98.9 degrees is a legal field of view, its focal length rounds
  to 10 mm, and 10 mm is a field of view of at least 100 degrees.
\<close>

theorem fov_roundtrip_counterexample:
  "kMinFOV \<le> 98.9 \<and> 98.9 \<le> kMaxFOV \<and> fov2fl 98.9 = Inr 10
   \<and> 1 < \<bar>fl2fov (of_int 10) - 98.9\<bar>"
proof -
  let ?h = "degToRad 98.9 / 2"
  have f: "(0::real) < 98.9" "(98.9::real) \<le> 100" by simp_all
  note h = half_angle_range [OF f]
  note t = tan_half_angle_range [OF f]
  have hv: "?h = pi / 4 + 89 * pi / 3600" by (simp add: degToRad_def)
  have "arctan (1 / 15) \<le> 1 / 15" by (intro arctan_le_arg) simp
  moreover have "1 / 15 < 89 * pi / 3600" using pi_ge_3 by simp
  ultimately have lt: "arctan (8 / 7) < ?h" by (simp only: arctan_8_7 hv)
  have "tan (arctan (8 / 7)) < tan ?h"
    using lt h(3) arctan_lbound [of "8 / 7"] by (intro tan_monotone)
  then have lo: "8 / 7 < tan ?h" by (simp add: tan_arctan)
  have x1: "12 / tan ?h < 21 / 2"
    using lo t(1) by (simp add: pos_divide_less_eq)
  have x2: "10 \<le> 12 / tan ?h"
    using t by (simp add: pos_le_divide_eq)
  have "round (12 / tan ?h) = 10"
    using x1 x2 by (intro round_unique) simp_all
  moreover have "0 < degToRad 98.9" "degToRad 98.9 < pi" using h(1) h(3) by simp_all
  ultimately have code: "fov2fl 98.9 = Inr 10"
    by (simp only: fov2fl_acute)
  have "radToDeg (2 * (5 * pi / 18)) \<le> radToDeg (2 * arctan (6 / 5))"
    using arctan_6_5_ge by (simp add: radToDeg_def field_simps)
  moreover have "radToDeg (2 * (5 * pi / 18)) = 100" by (simp add: radToDeg_def)
  moreover have "fl2fov (of_int 10) = radToDeg (2 * arctan (6 / 5))"
    by (simp add: fl2fov_def Let_def)
  ultimately have "100 \<le> fl2fov (of_int 10)" by simp
  then have "1 < \<bar>fl2fov (of_int 10) - 98.9\<bar>" by simp
  then show ?thesis using code by (simp add: kMinFOV_def kMaxFOV_def)
qed

end
